theory Spec2Isabelle
  imports Complex_Main "HOL-Library.Word" "HOL-Library.Char_ord" "HOL-Library.List_Lexorder"
begin

section \<open>Tables\<close>

text \<open>
  The program of \<^verbatim>\<open>pandas_questions.py\<close> works on pandas data frames. A data frame is
  modelled as the list of its rows, in row order, and a row as a record with one field per
  column the program reads or writes. A column of text holds Python \<^verbatim>\<open>str\<close> values; they
  are modelled as \<^typ>\<open>string\<close>, one \<^typ>\<open>char\<close> per code point, which covers the code points
  below 256 (the French region names need no other). The orders of \<^verbatim>\<open>Char_ord\<close>
  and \<^verbatim>\<open>List_Lexorder\<close> then compare two strings as Python does, code point by
  code point. A column of counts is read by pandas as 64-bit signed integers, whose sums wrap
  around: it is modelled as \<^typ>\<open>64 word\<close>, read with \<^const>\<open>sint\<close>.
\<close>

type_synonym int64 = "64 word"

text \<open>\<^verbatim>\<open>regions.csv\<close>: the columns \<^verbatim>\<open>code\<close> and \<^verbatim>\<open>name\<close>.\<close>

record region =
  code :: string
  name :: string

text \<open>\<^verbatim>\<open>departments.csv\<close>: the columns \<^verbatim>\<open>region_code\<close>, \<^verbatim>\<open>code\<close> and \<^verbatim>\<open>name\<close>.\<close>

record department =
  region_code :: string
  code :: string
  name :: string

text \<open>A row of the frame that \<^verbatim>\<open>merge_regions_and_departments\<close> returns.\<close>

record area =
  code_reg :: string
  name_reg :: string
  code_dep :: string
  name_dep :: string

text \<open>\<^verbatim>\<open>referendum.csv\<close>; the field names are the column names with \<^verbatim>\<open>_\<close> for the blank.\<close>

record ballot =
  Department_code :: string
  Department_name :: string
  Town_code :: string
  Town_name :: string
  Registered :: int64
  Abstentions :: int64
  Null :: int64
  Choice_A :: int64
  Choice_B :: int64

text \<open>
  A row of the frame that \<^verbatim>\<open>merge_referendum_and_areas\<close> returns: the referendum's columns
  and the four columns of \<^typ>\<open>area\<close>.
\<close>

record enriched = ballot +
  code_reg :: string
  name_reg :: string
  code_dep :: string
  name_dep :: string

text \<open>
  A row of the frame that \<^verbatim>\<open>compute_referendum_result_by_regions\<close> returns: the six columns
  of its last line. The index of a row is its position in the list.
\<close>

record region_result =
  name_reg :: string
  Registered :: int64
  Abstentions :: int64
  Null :: int64
  Choice_A :: int64
  Choice_B :: int64

text \<open>
  \<^verbatim>\<open>regions.geojson\<close> as geopandas reads it: the columns \<^verbatim>\<open>code\<close>, \<^verbatim>\<open>nom\<close> and
  \<^verbatim>\<open>geometry\<close>. The file is an input of the model, and a geometry is a value of any type.
\<close>

record 'g region_geometry =
  code :: string
  nom :: string
  geometry :: 'g

text \<open>
  The quotient of two \<^verbatim>\<open>int64\<close> columns is a \<^verbatim>\<open>float64\<close> column: dividing by zero raises
  nothing and gives an infinity or not-a-number. The model keeps a finite quotient exact, as
  a rational; the rounding of \<^verbatim>\<open>float64\<close> is not modelled.
\<close>

datatype quotient = Quot rat | PosInf | NegInf | NaN

text \<open>A row of the frame that \<^verbatim>\<open>plot_referendum_map\<close> returns.\<close>

record 'g rendered =
  geometry :: 'g
  name_reg :: string
  Registered :: int64
  Abstentions :: int64
  Null :: int64
  Choice_A :: int64
  Choice_B :: int64
  ratio :: quotient

text \<open>
  The exceptions. \<open>IndexError\<close> is the only one a function of the file can raise on tables
  of the types above; \<open>UnresolvedReferenceError\<close>, with the key it reports, is the error
  of the specification's taxonomy, which no line of the file raises.
\<close>

datatype py_error = IndexError | UnresolvedReferenceError string

section \<open>Python's string functions\<close>

text \<open>
  \<^verbatim>\<open>str.isalpha\<close>: the string is not empty and each character is a letter (Unicode
  categories L*). Below 256 the letters are A-Z, a-z, 0xAA, 0xB5, 0xBA and 0xC0-0xFF without
  0xD7 and 0xF7.
\<close>

definition alphabetic :: "char \<Rightarrow> bool" where
  "alphabetic c =
     (let n = (of_char c :: nat)
      in (65 \<le> n \<and> n \<le> 90) \<or> (97 \<le> n \<and> n \<le> 122) \<or> n = 170 \<or> n = 181 \<or> n = 186
         \<or> (192 \<le> n \<and> n \<le> 255 \<and> n \<noteq> 215 \<and> n \<noteq> 247))"

definition isalpha :: "string \<Rightarrow> bool" where
  "isalpha s = (s \<noteq> [] \<and> list_all alphabetic s)"

text \<open>
  \<^verbatim>\<open>int(s)\<close> for a string, in base 10: white space on both sides is skipped (the characters
  9 to 13, the blank, 0x85 and 0xA0), then comes an optional sign, then decimal digits, where
  one underscore may stand between two digits. Anything else raises \<^verbatim>\<open>ValueError\<close>, which is
  \<open>None\<close> here. The interpreter's limit on the length of a decimal conversion (4300 digits)
  is not modelled.
\<close>

definition int_space :: "char \<Rightarrow> bool" where
  "int_space c =
     (let n = (of_char c :: nat) in (9 \<le> n \<and> n \<le> 13) \<or> n = 32 \<or> n = 133 \<or> n = 160)"

definition digit :: "char \<Rightarrow> bool" where
  "digit c = (let n = (of_char c :: nat) in 48 \<le> n \<and> n \<le> 57)"

definition digit_val :: "char \<Rightarrow> nat" where
  "digit_val c = of_char c - 48"

fun after_digit :: "nat \<Rightarrow> string \<Rightarrow> nat option" where
  "after_digit acc [] = Some acc"
| "after_digit acc [c] = (if digit c then Some (10 * acc + digit_val c) else None)"
| "after_digit acc (c # d # cs) =
     (if digit c then after_digit (10 * acc + digit_val c) (d # cs)
      else if c = CHR ''_'' \<and> digit d then after_digit (10 * acc + digit_val d) cs
      else None)"

definition decimal :: "string \<Rightarrow> nat option" where
  "decimal s =
     (case s of [] \<Rightarrow> None
      | c # cs \<Rightarrow> if digit c then after_digit (digit_val c) cs else None)"

definition strip :: "string \<Rightarrow> string" where
  "strip s = rev (dropWhile int_space (rev (dropWhile int_space s)))"

definition py_int :: "string \<Rightarrow> int option" where
  "py_int s =
     (case strip s of [] \<Rightarrow> None
      | c # cs \<Rightarrow>
          if c = CHR ''-'' then map_option (\<lambda>n. - int n) (decimal cs)
          else if c = CHR ''+'' then map_option int (decimal cs)
          else map_option int (decimal (c # cs)))"

text \<open>\<^verbatim>\<open>str(n)\<close> for an integer: its decimal digits, after \<^verbatim>\<open>-\<close> when it is negative.\<close>

fun digits_of :: "nat \<Rightarrow> string" where
  "digits_of n =
     (if n < 10 then [char_of (48 + n)]
      else digits_of (n div 10) @ [char_of (48 + n mod 10)])"

definition py_str :: "int \<Rightarrow> string" where
  "py_str i = (if i < 0 then CHR ''-'' # digits_of (nat (- i)) else digits_of (nat i))"

section \<open>The four functions\<close>

subsection \<open>\<^verbatim>\<open>merge_regions_and_departments\<close>\<close>

text \<open>Lines 56 to 61: one row per department, with an empty \<^verbatim>\<open>name_reg\<close>.\<close>

definition new_area :: "department \<Rightarrow> area" where
  "new_area d =
     \<lparr>area.code_reg = region_code d, area.name_reg = '''',
      area.code_dep = department.code d, area.name_dep = department.name d\<rparr>"

text \<open>
  Lines 63 and 64, the body of the loop over the regions: the rows whose \<^verbatim>\<open>code_reg\<close> is
  the region's code take the region's name.
\<close>

definition set_name_reg :: "region \<Rightarrow> area list \<Rightarrow> area list" where
  "set_name_reg row df =
     map (\<lambda>a. if area.code_reg a = region.code row
               then a\<lparr>area.name_reg := region.name row\<rparr> else a) df"

definition merge_regions_and_departments :: "region list \<Rightarrow> department list \<Rightarrow> area list" where
  "merge_regions_and_departments regions departments =
     foldl (\<lambda>df row. set_name_reg row df) (map new_area departments) regions"

subsection \<open>\<^verbatim>\<open>merge_referendum_and_areas\<close>\<close>

text \<open>\<^verbatim>\<open>np.unique\<close>: the distinct values, sorted.\<close>

definition np_unique :: "string list \<Rightarrow> string list" where
  "np_unique xs = sort (remdups xs)"

text \<open>Lines 94 and 95: the four new columns, empty.\<close>

definition new_enriched :: "ballot \<Rightarrow> enriched" where
  "new_enriched r =
     \<lparr>ballot.Department_code = ballot.Department_code r,
      ballot.Department_name = ballot.Department_name r,
      ballot.Town_code = ballot.Town_code r, ballot.Town_name = ballot.Town_name r,
      ballot.Registered = ballot.Registered r, ballot.Abstentions = ballot.Abstentions r,
      ballot.Null = ballot.Null r, ballot.Choice_A = ballot.Choice_A r,
      ballot.Choice_B = ballot.Choice_B r,
      enriched.code_reg = '''', enriched.name_reg = '''',
      enriched.code_dep = '''', enriched.name_dep = ''''\<rparr>"

text \<open>
  Lines 97 to 101: the department's code as the loop compares it, \<^verbatim>\<open>str(int(dep_code))\<close>,
  or the code itself when \<^verbatim>\<open>int\<close> raises.
\<close>

definition dep_code_key :: "string \<Rightarrow> string" where
  "dep_code_key dep_code = (case py_int dep_code of Some n \<Rightarrow> py_str n | None \<Rightarrow> dep_code)"

text \<open>
  Lines 102 to 106, the body of the loop over \<^verbatim>\<open>regions_and_departments\<close>: the rows whose
  \<^verbatim>\<open>Department code\<close> is that key take the four values of the row.
\<close>

definition attach :: "area \<Rightarrow> enriched list \<Rightarrow> enriched list" where
  "attach row df =
     map (\<lambda>e. if ballot.Department_code e = dep_code_key (area.code_dep row)
               then e\<lparr>enriched.code_dep := area.code_dep row,
                      enriched.name_dep := area.name_dep row,
                      enriched.code_reg := area.code_reg row,
                      enriched.name_reg := area.name_reg row\<rparr>
               else e) df"

definition merge_referendum_and_areas :: "ballot list \<Rightarrow> area list \<Rightarrow> enriched list" where
  "merge_referendum_and_areas referendum regions_and_departments =
     (let dep_codes = filter (\<lambda>el. \<not> isalpha el)
                        (np_unique (map ballot.Department_code referendum));
          df = filter (\<lambda>r. ballot.Department_code r \<in> set dep_codes) referendum
      in foldl (\<lambda>df row. attach row df) (map new_enriched df) regions_and_departments)"

subsection \<open>\<^verbatim>\<open>compute_referendum_result_by_regions\<close>\<close>

text \<open>
  \<^verbatim>\<open>groupby(["name_reg"]).sum()\<close>: one row per distinct \<^verbatim>\<open>name_reg\<close>, the keys sorted, each
  count the sum of the column over the rows of the group, in 64-bit arithmetic.
\<close>

definition group_sum :: "(enriched \<Rightarrow> int64) \<Rightarrow> string \<Rightarrow> enriched list \<Rightarrow> int64" where
  "group_sum col k df = sum_list (map col (filter (\<lambda>e. enriched.name_reg e = k) df))"

definition compute_referendum_result_by_regions :: "enriched list \<Rightarrow> region_result list" where
  "compute_referendum_result_by_regions referendum_and_areas =
     map (\<lambda>k. \<lparr>region_result.name_reg = k,
                region_result.Registered = group_sum ballot.Registered k referendum_and_areas,
                region_result.Abstentions = group_sum ballot.Abstentions k referendum_and_areas,
                region_result.Null = group_sum ballot.Null k referendum_and_areas,
                region_result.Choice_A = group_sum ballot.Choice_A k referendum_and_areas,
                region_result.Choice_B = group_sum ballot.Choice_B k referendum_and_areas\<rparr>)
       (sort (remdups (map enriched.name_reg referendum_and_areas)))"

subsection \<open>\<^verbatim>\<open>plot_referendum_map\<close>\<close>

text \<open>
  Line 159: the geometry of the first row of the map whose \<^verbatim>\<open>nom\<close> is the region's name;
  \<^verbatim>\<open>.values[0]\<close> raises \<^verbatim>\<open>IndexError\<close> when there is none.
\<close>

definition first_geometry :: "'g region_geometry list \<Rightarrow> string \<Rightarrow> py_error + 'g" where
  "first_geometry region_map k =
     (case filter (\<lambda>g. nom g = k) region_map of
        [] \<Rightarrow> Inl IndexError
      | g # _ \<Rightarrow> Inr (region_geometry.geometry g))"

text \<open>Lines 158 and 159: the loop stops at the first row without a geometry.\<close>

fun geometries :: "'g region_geometry list \<Rightarrow> region_result list \<Rightarrow> py_error + 'g list" where
  "geometries region_map [] = Inr []"
| "geometries region_map (row # rows) =
     (case first_geometry region_map (region_result.name_reg row) of
        Inl e \<Rightarrow> Inl e
      | Inr g \<Rightarrow> (case geometries region_map rows of
                   Inl e \<Rightarrow> Inl e
                 | Inr gs \<Rightarrow> Inr (g # gs)))"

text \<open>Line 161: the division of two \<^verbatim>\<open>int64\<close> values as numpy does it.\<close>

definition true_divide :: "int64 \<Rightarrow> int64 \<Rightarrow> quotient" where
  "true_divide a b =
     (if b \<noteq> 0 then Quot (of_int (sint a) / of_int (sint b))
      else if 0 < sint a then PosInf
      else if sint a < 0 then NegInf
      else NaN)"

definition render :: "'g \<Rightarrow> region_result \<Rightarrow> 'g rendered" where
  "render g row =
     \<lparr>rendered.geometry = g,
      rendered.name_reg = region_result.name_reg row,
      rendered.Registered = region_result.Registered row,
      rendered.Abstentions = region_result.Abstentions row,
      rendered.Null = region_result.Null row,
      rendered.Choice_A = region_result.Choice_A row,
      rendered.Choice_B = region_result.Choice_B row,
      rendered.ratio =
        true_divide (region_result.Choice_A row)
          (region_result.Choice_B row + region_result.Choice_A row)\<rparr>"

text \<open>
  The frame the function returns, for the map read from \<^verbatim>\<open>regions.geojson\<close>; drawing and
  printing it are left out.
\<close>

definition plot_referendum_map ::
  "'g region_geometry list \<Rightarrow> region_result list \<Rightarrow> py_error + 'g rendered list" where
  "plot_referendum_map region_map referendum_result_by_regions =
     (case geometries region_map referendum_result_by_regions of
        Inl e \<Rightarrow> Inl e
      | Inr gs \<Rightarrow> Inr (map2 render gs referendum_result_by_regions))"

section \<open>The loops, row by row\<close>

text \<open>
  Each pass of the loop of \<^const>\<open>merge_regions_and_departments\<close> rewrites every row by
  itself; \<open>name_step\<close> is what one pass does to one row.
\<close>

definition name_step :: "area \<Rightarrow> region \<Rightarrow> area" where
  "name_step a row =
     (if area.code_reg a = region.code row then a\<lparr>area.name_reg := region.name row\<rparr> else a)"

text \<open>The name of the specification's example region; its fifteenth code point is 0xF4.\<close>

definition AuRA :: string where
  "AuRA = ''Auvergne-Rh'' @ [CHR 0xF4] @ ''ne-Alpes''"

text \<open>
  Likewise \<open>attach_step\<close> is what one pass of the loop of
  \<^const>\<open>merge_referendum_and_areas\<close> does to one row.
\<close>

definition attach_step :: "enriched \<Rightarrow> area \<Rightarrow> enriched" where
  "attach_step e row =
     (if ballot.Department_code e = dep_code_key (area.code_dep row)
      then e\<lparr>enriched.code_dep := area.code_dep row,
             enriched.name_dep := area.name_dep row,
             enriched.code_reg := area.code_reg row,
             enriched.name_reg := area.name_reg row\<rparr>
      else e)"

text \<open>Example tables: the region and the department of the specification's example.\<close>

definition example_regions :: "region list" where
  "example_regions = [\<lparr>region.code = ''84'', name = AuRA\<rparr>]"

definition example_departments :: "department list" where
  "example_departments = [\<lparr>region_code = ''84'', code = ''01'', name = ''Ain''\<rparr>]"

definition example_areas :: "area list" where
  "example_areas =
     [\<lparr>area.code_reg = ''84'', name_reg = AuRA, code_dep = ''01'', name_dep = ''Ain''\<rparr>,
      \<lparr>area.code_reg = ''94'', name_reg = ''Corse'', code_dep = ''2A'',
       name_dep = ''Corse-du-Sud''\<rparr>]"

text \<open>A referendum row with the counts of the example, for a given department code.\<close>

definition example_ballot :: "string \<Rightarrow> ballot" where
  "example_ballot c =
     \<lparr>Department_code = c, Department_name = ''D'', Town_code = ''1'', Town_name = ''T'',
      Registered = 100, Abstentions = 20, Null = 5, Choice_A = 40, Choice_B = 35\<rparr>"

text \<open>An enriched row with those counts, for a given region code and region name.\<close>

definition example_enriched :: "string \<Rightarrow> string \<Rightarrow> enriched" where
  "example_enriched c n =
     \<lparr>Department_code = ''1'', Department_name = ''D'', Town_code = ''1'', Town_name = ''T'',
      Registered = 100, Abstentions = 20, Null = 5, Choice_A = 40, Choice_B = 35,
      code_reg = c, name_reg = n, code_dep = ''01'', name_dep = ''Ain''\<rparr>"

text \<open>A result row with those counts, for a given region name.\<close>

definition example_result :: "string \<Rightarrow> region_result" where
  "example_result n =
     \<lparr>region_result.name_reg = n, Registered = 100, Abstentions = 20, Null = 5,
      Choice_A = 40, Choice_B = 35\<rparr>"

text \<open>A map without the example region.\<close>

definition example_map :: "unit region_geometry list" where
  "example_map = [\<lparr>region_geometry.code = ''94'', nom = ''Corse'', geometry = ()\<rparr>]"

section \<open>Joining regions and departments\<close>

lemma foldl_map_rows:
  "foldl (\<lambda>df row. map (g row) df) df rows = map (\<lambda>e. foldl (\<lambda>e row. g row e) e rows) df"
  by (induction rows arbitrary: df) (simp_all add: comp_def)

lemma merge_regions_and_departments_rows:
  "merge_regions_and_departments regions departments =
     map (\<lambda>d. foldl name_step (new_area d) regions) departments"
  unfolding merge_regions_and_departments_def set_name_reg_def
  by (simp add: foldl_map_rows name_step_def [abs_def] comp_def)

lemma name_step_hit:
  "region.code row = area.code_reg a \<Longrightarrow>
     name_step a row = a\<lparr>area.name_reg := region.name row\<rparr>"
  by (simp add: name_step_def)

lemma name_step_miss:
  "region.code row \<noteq> area.code_reg a \<Longrightarrow> name_step a row = a"
  by (auto simp: name_step_def)

lemma name_step_fields:
  "area.code_reg (name_step a row) = area.code_reg a"
  "area.code_dep (name_step a row) = area.code_dep a"
  "area.name_dep (name_step a row) = area.name_dep a"
  by (simp_all add: name_step_def)

lemma name_step_keeps:
  "area.code_reg (foldl name_step a rs) = area.code_reg a"
  "area.code_dep (foldl name_step a rs) = area.code_dep a"
  "area.name_dep (foldl name_step a rs) = area.name_dep a"
  by (induction rs rule: rev_induct) (simp_all add: name_step_fields)

lemma name_step_unmatched:
  "\<forall>r \<in> set rs. region.code r \<noteq> area.code_reg a \<Longrightarrow> foldl name_step a rs = a"
  by (induction rs rule: rev_induct) (simp_all add: name_step_miss)

text \<open>The last region with the row's code gives the name: some region with that code does.\<close>

lemma name_step_some:
  "r \<in> set rs \<Longrightarrow> region.code r = area.code_reg a \<Longrightarrow>
     \<exists>r' \<in> set rs. region.code r' = area.code_reg a
        \<and> area.name_reg (foldl name_step a rs) = region.name r'"
proof (induction rs rule: rev_induct)
  case Nil
  then show ?case by simp
next
  case (snoc x xs)
  show ?case
  proof (cases "region.code x = area.code_reg a")
    case True
    then have "region.code x = area.code_reg (foldl name_step a xs)"
      by (simp add: name_step_keeps)
    from name_step_hit [OF this] True show ?thesis by auto
  next
    case False
    then have miss: "region.code x \<noteq> area.code_reg (foldl name_step a xs)"
      by (simp add: name_step_keeps)
    from False snoc.prems have "r \<in> set xs" by auto
    from snoc.IH [OF this snoc.prems(2)] name_step_miss [OF miss] show ?thesis
      by auto
  qed
qed

lemma name_step_distinct:
  assumes d: "distinct (map region.code rs)"
    and r: "r \<in> set rs" "region.code r = area.code_reg a"
  shows "area.name_reg (foldl name_step a rs) = region.name r"
proof -
  from name_step_some [OF r] obtain r' where
    r': "r' \<in> set rs" "region.code r' = area.code_reg a"
        "area.name_reg (foldl name_step a rs) = region.name r'" by blast
  from d r r' have "r' = r"
    by (metis distinct_map inj_onD)
  with r' show ?thesis by simp
qed

text \<open>
  Claim C3. The frame of \<^const>\<open>merge_regions_and_departments\<close> has one row per department,
  in the order of the departments: row \<open>i\<close> carries the region code, the code and the name
  of department \<open>i\<close>. When a region has the department's region code, the row's
  \<^verbatim>\<open>name_reg\<close> is the name of a region with that code, and it is that region's name when
  the codes of the region table are distinct, as the identity of a region requires.
\<close>

theorem merge_regions_and_departments_join:
  "length (merge_regions_and_departments regions departments) = length departments \<and>
   (\<forall>i < length departments.
      area.code_reg (merge_regions_and_departments regions departments ! i)
        = region_code (departments ! i) \<and>
      area.code_dep (merge_regions_and_departments regions departments ! i)
        = department.code (departments ! i) \<and>
      area.name_dep (merge_regions_and_departments regions departments ! i)
        = department.name (departments ! i) \<and>
      (\<forall>r \<in> set regions. region.code r = region_code (departments ! i) \<longrightarrow>
         (\<exists>r' \<in> set regions. region.code r' = region_code (departments ! i) \<and>
            area.name_reg (merge_regions_and_departments regions departments ! i)
              = region.name r') \<and>
         (distinct (map region.code regions) \<longrightarrow>
            area.name_reg (merge_regions_and_departments regions departments ! i)
              = region.name r)))"
proof (intro conjI allI impI ballI)
  show "length (merge_regions_and_departments regions departments) = length departments"
    by (simp add: merge_regions_and_departments_rows)
next
  fix i assume i: "i < length departments"
  then have row: "merge_regions_and_departments regions departments ! i
      = foldl name_step (new_area (departments ! i)) regions"
    by (simp add: merge_regions_and_departments_rows)
  show "area.code_reg (merge_regions_and_departments regions departments ! i)
        = region_code (departments ! i)"
    by (simp add: row name_step_keeps new_area_def)
  show "area.code_dep (merge_regions_and_departments regions departments ! i)
        = department.code (departments ! i)"
    by (simp add: row name_step_keeps new_area_def)
  show "area.name_dep (merge_regions_and_departments regions departments ! i)
        = department.name (departments ! i)"
    by (simp add: row name_step_keeps new_area_def)
  fix r assume r: "r \<in> set regions" "region.code r = region_code (departments ! i)"
  then have c: "region.code r = area.code_reg (new_area (departments ! i))"
    by (simp add: new_area_def)
  from name_step_some [OF r(1) c]
  show "\<exists>r' \<in> set regions. region.code r' = region_code (departments ! i) \<and>
            area.name_reg (merge_regions_and_departments regions departments ! i)
              = region.name r'"
    by (simp add: row new_area_def)
  assume "distinct (map region.code regions)"
  from name_step_distinct [OF this r(1) c]
  show "area.name_reg (merge_regions_and_departments regions departments ! i) = region.name r"
    by (simp add: row)
qed

theorem merge_regions_and_departments_join_witness:
  "(0::nat) < length example_departments \<and>
   hd example_regions \<in> set example_regions \<and>
   region.code (hd example_regions) = region_code (example_departments ! 0) \<and>
   distinct (map region.code example_regions) \<and>
   merge_regions_and_departments example_regions example_departments
     = [\<lparr>area.code_reg = ''84'', name_reg = AuRA, code_dep = ''01'', name_dep = ''Ain''\<rparr>]"
  using merge_regions_and_departments_join [of example_regions example_departments]
  by (simp add: example_regions_def example_departments_def
      merge_regions_and_departments_def set_name_reg_def new_area_def)

text \<open>
  Claim C7, as the code has it. A department whose region code is the code of no region
  raises nothing: its row keeps the empty \<^verbatim>\<open>name_reg\<close> it was created with.
\<close>

theorem merge_regions_and_departments_unmatched:
  "i < length departments \<Longrightarrow>
   \<forall>r \<in> set regions. region.code r \<noteq> region_code (departments ! i) \<Longrightarrow>
   merge_regions_and_departments regions departments ! i = new_area (departments ! i) \<and>
   area.name_reg (merge_regions_and_departments regions departments ! i) = ''''"
  by (simp add: merge_regions_and_departments_rows name_step_unmatched new_area_def)

theorem merge_regions_and_departments_unmatched_witness:
  "(0::nat) < length [\<lparr>region_code = ''99'', code = ''01'', name = ''Ain''\<rparr>] \<and>
   region.code (hd example_regions) \<noteq> ''99'' \<and>
   area.name_reg
     (merge_regions_and_departments example_regions
        [\<lparr>region_code = ''99'', code = ''01'', name = ''Ain''\<rparr>] ! 0) = ''''"
  using merge_regions_and_departments_unmatched
    [of 0 "[\<lparr>region_code = ''99'', code = ''01'', name = ''Ain''\<rparr>]" example_regions]
  by (simp add: example_regions_def new_area_def)

text \<open>
  The claim as the specification states it fails: with region 84 only, the department of
  region 99 comes out with an empty name, and no error is raised.
\<close>

theorem merge_regions_and_departments_silent_empty_name:
  "merge_regions_and_departments example_regions
     [\<lparr>region_code = ''99'', code = ''01'', name = ''Ain''\<rparr>]
   = [\<lparr>area.code_reg = ''99'', name_reg = '''', code_dep = ''01'', name_dep = ''Ain''\<rparr>]"
  by (simp add: merge_regions_and_departments_def set_name_reg_def new_area_def
      example_regions_def)

section \<open>Joining the referendum and the areas\<close>

text \<open>
  The two filters of lines 89 to 91 keep the rows whose department code is not alphabetic,
  and the loop rewrites each kept row by itself.
\<close>

lemma kept_rows:
  "filter (\<lambda>r. ballot.Department_code r
       \<in> set (filter (\<lambda>el. \<not> isalpha el) (np_unique (map ballot.Department_code referendum))))
     referendum
   = filter (\<lambda>r. \<not> isalpha (ballot.Department_code r)) referendum"
  by (rule filter_cong) (auto simp: np_unique_def)

lemma merge_referendum_and_areas_rows:
  "merge_referendum_and_areas referendum rd =
     map (\<lambda>r. foldl attach_step (new_enriched r) rd)
       (filter (\<lambda>r. \<not> isalpha (ballot.Department_code r)) referendum)"
  unfolding merge_referendum_and_areas_def Let_def kept_rows attach_def
  by (simp add: foldl_map_rows attach_step_def [abs_def] comp_def)

lemma truncate_attach_step: "ballot.truncate (attach_step e row) = ballot.truncate e"
  by (simp add: attach_step_def ballot.truncate_def)

lemma truncate_attach: "ballot.truncate (foldl attach_step e rd) = ballot.truncate e"
  by (induction rd rule: rev_induct) (simp_all add: truncate_attach_step)

lemma truncate_new_enriched: "ballot.truncate (new_enriched r) = r"
  by (simp add: new_enriched_def ballot.truncate_def)

lemma merge_referendum_and_areas_ballots:
  "map ballot.truncate (merge_referendum_and_areas referendum rd)
     = filter (\<lambda>r. \<not> isalpha (ballot.Department_code r)) referendum"
  by (simp add: merge_referendum_and_areas_rows comp_def truncate_attach truncate_new_enriched)

lemma Department_code_truncate: "ballot.Department_code (ballot.truncate e) = ballot.Department_code e"
  by (simp add: ballot.truncate_def)

lemma attach_step_miss:
  "ballot.Department_code e \<noteq> dep_code_key (area.code_dep row) \<Longrightarrow> attach_step e row = e"
  by (simp add: attach_step_def)

lemma attach_step_code: "ballot.Department_code (attach_step e row) = ballot.Department_code e"
  by (simp add: attach_step_def)

lemma attach_unmatched:
  "\<forall>row \<in> set rd. ballot.Department_code e \<noteq> dep_code_key (area.code_dep row) \<Longrightarrow>
     foldl attach_step e rd = e"
  by (induction rd rule: rev_induct) (simp_all add: attach_step_miss)

text \<open>
  The examples, evaluated: the key of department \<^verbatim>\<open>01\<close> is \<^verbatim>\<open>1\<close>, and \<^verbatim>\<open>2A\<close> is
  neither alphabetic nor an integer.
\<close>

lemma dep_code_key_01: "dep_code_key ''01'' = ''1''"
  by code_simp

lemma dep_code_key_2A: "dep_code_key ''2A'' = ''2A''"
  by code_simp

lemma py_int_2A: "py_int ''2A'' = None"
  by code_simp

lemma isalpha_examples:
  "\<not> isalpha ''1''" "\<not> isalpha ''2A''" "isalpha ''ZZ''" "\<not> isalpha ''99''"
  by (simp_all add: isalpha_def alphabetic_def)

text \<open>
  Claim C2. A referendum row whose department code is alphabetic (\<^verbatim>\<open>ZZ\<close>) is absent from
  the frame of \<^const>\<open>merge_referendum_and_areas\<close>: no row of the frame has its department
  code. Its counts contribute to no row of \<^const>\<open>compute_referendum_result_by_regions\<close>:
  wherever the row stands in the referendum table, the merged frame and the results by
  region are those of the table without it.
\<close>

theorem merge_referendum_and_areas_drops_alphabetic:
  assumes "isalpha (ballot.Department_code b)"
  shows "(\<forall>e \<in> set (merge_referendum_and_areas referendum rd).
            ballot.Department_code e \<noteq> ballot.Department_code b) \<and>
         merge_referendum_and_areas (xs @ b # ys) rd = merge_referendum_and_areas (xs @ ys) rd \<and>
         compute_referendum_result_by_regions (merge_referendum_and_areas (xs @ b # ys) rd)
           = compute_referendum_result_by_regions (merge_referendum_and_areas (xs @ ys) rd)"
proof -
  have absent: "ballot.Department_code e \<noteq> ballot.Department_code b"
    if "e \<in> set (merge_referendum_and_areas referendum rd)" for e
  proof -
    from that have "ballot.truncate e \<in> set (map ballot.truncate (merge_referendum_and_areas referendum rd))"
      by simp
    then have "\<not> isalpha (ballot.Department_code (ballot.truncate e))"
      unfolding merge_referendum_and_areas_ballots by simp
    with assms show ?thesis by (auto simp: Department_code_truncate)
  qed
  from assms have same: "merge_referendum_and_areas (xs @ b # ys) rd = merge_referendum_and_areas (xs @ ys) rd"
    by (simp add: merge_referendum_and_areas_rows)
  from absent same show ?thesis by simp
qed

text \<open>
  With the rows \<^verbatim>\<open>1\<close> and \<^verbatim>\<open>ZZ\<close>, only the row \<^verbatim>\<open>1\<close> is merged and counted.
\<close>

theorem merge_referendum_and_areas_drops_alphabetic_witness:
  "isalpha (ballot.Department_code (example_ballot ''ZZ'')) \<and>
   map ballot.Department_code
     (merge_referendum_and_areas [example_ballot ''1'', example_ballot ''ZZ''] example_areas) = [''1''] \<and>
   compute_referendum_result_by_regions
     (merge_referendum_and_areas [example_ballot ''1'', example_ballot ''ZZ''] example_areas)
   = [example_result AuRA]"
  using merge_referendum_and_areas_drops_alphabetic
    [where b = "example_ballot ''ZZ''" and xs = "[example_ballot ''1'']" and ys = "[]"
       and rd = example_areas
       and referendum = "[example_ballot ''1'', example_ballot ''ZZ'']"]
  by (simp add: example_ballot_def example_areas_def example_result_def
      merge_referendum_and_areas_def np_unique_def attach_def new_enriched_def
      compute_referendum_result_by_regions_def group_sum_def
      isalpha_examples dep_code_key_01 dep_code_key_2A)

text \<open>
  Claim C8, as the code has it. The rows of the frame of
  \<^const>\<open>merge_referendum_and_areas\<close> are the referendum rows whose department code is not
  alphabetic, in their order and with their nine columns: every row of the frame has a
  department code that is not purely alphabetic, and a row coded \<^verbatim>\<open>2A\<close> survives.
\<close>

theorem merge_referendum_and_areas_survivors:
  "map ballot.truncate (merge_referendum_and_areas referendum rd)
     = filter (\<lambda>r. \<not> isalpha (ballot.Department_code r)) referendum \<and>
   (\<forall>e \<in> set (merge_referendum_and_areas referendum rd). \<not> isalpha (ballot.Department_code e))"
proof
  show m: "map ballot.truncate (merge_referendum_and_areas referendum rd)
     = filter (\<lambda>r. \<not> isalpha (ballot.Department_code r)) referendum"
    by (rule merge_referendum_and_areas_ballots)
  show "\<forall>e \<in> set (merge_referendum_and_areas referendum rd). \<not> isalpha (ballot.Department_code e)"
  proof
    fix e assume "e \<in> set (merge_referendum_and_areas referendum rd)"
    then have "ballot.truncate e \<in> set (map ballot.truncate (merge_referendum_and_areas referendum rd))"
      by simp
    then have "\<not> isalpha (ballot.Department_code (ballot.truncate e))"
      unfolding m by simp
    then show "\<not> isalpha (ballot.Department_code e)"
      by (simp add: Department_code_truncate)
  qed
qed

theorem merge_referendum_and_areas_survivors_witness:
  "map ballot.truncate
     (merge_referendum_and_areas [example_ballot ''2A'', example_ballot ''ZZ''] example_areas)
   = [example_ballot ''2A''] \<and> \<not> isalpha ''2A''"
  using merge_referendum_and_areas_survivors
    [of "[example_ballot ''2A'', example_ballot ''ZZ'']" example_areas]
  by (simp add: example_ballot_def isalpha_examples)

text \<open>
  The claim as the specification states it fails: the row of department \<^verbatim>\<open>2A\<close>, whose
  code is neither alphabetic nor an integer, survives the filter and is attached to its
  region.
\<close>

theorem merge_referendum_and_areas_keeps_2A:
  "merge_referendum_and_areas [example_ballot ''2A''] example_areas
   = [\<lparr>Department_code = ''2A'', Department_name = ''D'', Town_code = ''1'', Town_name = ''T'',
       Registered = 100, Abstentions = 20, Null = 5, Choice_A = 40, Choice_B = 35,
       code_reg = ''94'', name_reg = ''Corse'', code_dep = ''2A'',
       name_dep = ''Corse-du-Sud''\<rparr>] \<and>
   \<not> isalpha ''2A'' \<and> py_int ''2A'' = None"
  by (simp add: example_ballot_def example_areas_def
      merge_referendum_and_areas_def np_unique_def attach_def new_enriched_def
      isalpha_examples dep_code_key_01 dep_code_key_2A py_int_2A)

text \<open>
  Claim C10. A referendum row whose department code is not alphabetic and is the key of no
  row of \<^verbatim>\<open>regions_and_departments\<close> stays in the frame of
  \<^const>\<open>merge_referendum_and_areas\<close>, with its nine columns and with \<^verbatim>\<open>code_reg\<close>,
  \<^verbatim>\<open>name_reg\<close>, \<^verbatim>\<open>code_dep\<close> and \<^verbatim>\<open>name_dep\<close> empty; nothing is raised. It is one of
  the rows with an empty \<^verbatim>\<open>name_reg\<close>, and \<^const>\<open>compute_referendum_result_by_regions\<close>
  has a row for the empty name whose counts are the sums over those rows.
\<close>

theorem merge_referendum_and_areas_unmatched:
  assumes b: "b \<in> set referendum"
    and alpha: "\<not> isalpha (ballot.Department_code b)"
    and unmatched: "\<forall>row \<in> set rd. ballot.Department_code b \<noteq> dep_code_key (area.code_dep row)"
  shows "\<exists>e \<in> set (merge_referendum_and_areas referendum rd).
           ballot.truncate e = b \<and>
           enriched.code_reg e = '''' \<and> enriched.name_reg e = '''' \<and>
           enriched.code_dep e = '''' \<and> enriched.name_dep e = '''' \<and>
           e \<in> set (filter (\<lambda>x. enriched.name_reg x = '''')
                      (merge_referendum_and_areas referendum rd)) \<and>
           \<lparr>region_result.name_reg = '''',
            Registered = sum_list (map ballot.Registered
              (filter (\<lambda>x. enriched.name_reg x = '''') (merge_referendum_and_areas referendum rd))),
            Abstentions = sum_list (map ballot.Abstentions
              (filter (\<lambda>x. enriched.name_reg x = '''') (merge_referendum_and_areas referendum rd))),
            Null = sum_list (map ballot.Null
              (filter (\<lambda>x. enriched.name_reg x = '''') (merge_referendum_and_areas referendum rd))),
            Choice_A = sum_list (map ballot.Choice_A
              (filter (\<lambda>x. enriched.name_reg x = '''') (merge_referendum_and_areas referendum rd))),
            Choice_B = sum_list (map ballot.Choice_B
              (filter (\<lambda>x. enriched.name_reg x = '''') (merge_referendum_and_areas referendum rd)))\<rparr>
           \<in> set (compute_referendum_result_by_regions (merge_referendum_and_areas referendum rd))"
proof -
  let ?out = "merge_referendum_and_areas referendum rd"
  let ?e = "new_enriched b"
  from unmatched have "\<forall>row \<in> set rd. ballot.Department_code ?e \<noteq> dep_code_key (area.code_dep row)"
    by (simp add: new_enriched_def)
  then have stay: "foldl attach_step ?e rd = ?e"
    by (rule attach_unmatched)
  from b alpha have "b \<in> set (filter (\<lambda>r. \<not> isalpha (ballot.Department_code r)) referendum)"
    by simp
  then have "foldl attach_step (new_enriched b) rd \<in> set ?out"
    unfolding merge_referendum_and_areas_rows set_map by (rule imageI)
  with stay have mem: "?e \<in> set ?out" by simp
  have empty: "enriched.name_reg ?e = ''''" by (simp add: new_enriched_def)
  from mem empty have key: "'''' \<in> set (sort (remdups (map enriched.name_reg ?out)))"
    by force
  have row: "\<lparr>region_result.name_reg = '''',
            Registered = group_sum ballot.Registered '''' ?out,
            Abstentions = group_sum ballot.Abstentions '''' ?out,
            Null = group_sum ballot.Null '''' ?out,
            Choice_A = group_sum ballot.Choice_A '''' ?out,
            Choice_B = group_sum ballot.Choice_B '''' ?out\<rparr>
          \<in> set (compute_referendum_result_by_regions ?out)"
    unfolding compute_referendum_result_by_regions_def set_map
    by (rule image_eqI [OF _ key]) simp
  show ?thesis
  proof (rule bexI [OF _ mem], intro conjI)
    show "ballot.truncate ?e = b" by (rule truncate_new_enriched)
    show "enriched.code_reg ?e = ''''" "enriched.name_reg ?e = ''''"
      "enriched.code_dep ?e = ''''" "enriched.name_dep ?e = ''''"
      by (simp_all add: new_enriched_def)
    from mem empty show "?e \<in> set (filter (\<lambda>x. enriched.name_reg x = '''') ?out)"
      by simp
    from row show "\<lparr>region_result.name_reg = '''',
            Registered = sum_list (map ballot.Registered (filter (\<lambda>x. enriched.name_reg x = '''') ?out)),
            Abstentions = sum_list (map ballot.Abstentions (filter (\<lambda>x. enriched.name_reg x = '''') ?out)),
            Null = sum_list (map ballot.Null (filter (\<lambda>x. enriched.name_reg x = '''') ?out)),
            Choice_A = sum_list (map ballot.Choice_A (filter (\<lambda>x. enriched.name_reg x = '''') ?out)),
            Choice_B = sum_list (map ballot.Choice_B (filter (\<lambda>x. enriched.name_reg x = '''') ?out))\<rparr>
           \<in> set (compute_referendum_result_by_regions ?out)"
      by (simp only: group_sum_def)
  qed
qed

theorem merge_referendum_and_areas_unmatched_witness:
  "example_ballot ''99'' \<in> set [example_ballot ''99''] \<and>
   \<not> isalpha (ballot.Department_code (example_ballot ''99'')) \<and>
   ballot.Department_code (example_ballot ''99'') \<noteq> dep_code_key ''01'' \<and>
   ballot.Department_code (example_ballot ''99'') \<noteq> dep_code_key ''2A'' \<and>
   merge_referendum_and_areas [example_ballot ''99''] example_areas
     = [new_enriched (example_ballot ''99'')] \<and>
   compute_referendum_result_by_regions
     (merge_referendum_and_areas [example_ballot ''99''] example_areas) = [example_result '''']"
  using merge_referendum_and_areas_unmatched
    [of "example_ballot ''99''" "[example_ballot ''99'']" example_areas]
  by (simp add: example_ballot_def example_areas_def example_result_def
      merge_referendum_and_areas_def np_unique_def attach_def new_enriched_def
      compute_referendum_result_by_regions_def group_sum_def
      isalpha_examples dep_code_key_01 dep_code_key_2A)

section \<open>Sums by region\<close>

text \<open>
  Summing a column group by group, over distinct keys that cover the rows, gives the sum
  of the column.
\<close>

lemma sum_list_single_key:
  fixes v :: "'b::comm_monoid_add"
  assumes "distinct ks" "k0 \<in> set ks"
  shows "(\<Sum>k\<leftarrow>ks. if k0 = k then v else 0) = v"
  using assms by (simp add: sum_list_distinct_conv_sum_set)

lemma sum_list_groups:
  fixes g :: "'a \<Rightarrow> 'b::comm_monoid_add"
  assumes "distinct ks" "f ` set xs \<subseteq> set ks"
  shows "(\<Sum>k\<leftarrow>ks. sum_list (map g (filter (\<lambda>x. f x = k) xs))) = sum_list (map g xs)"
  using assms(2)
proof (induction xs)
  case Nil
  then show ?case by simp
next
  case (Cons x xs)
  then have k: "f x \<in> set ks" and sub: "f ` set xs \<subseteq> set ks" by auto
  have "(\<Sum>k\<leftarrow>ks. sum_list (map g (filter (\<lambda>y. f y = k) (x # xs))))
      = (\<Sum>k\<leftarrow>ks. (if f x = k then g x else 0) + sum_list (map g (filter (\<lambda>y. f y = k) xs)))"
    by (rule arg_cong [where f = sum_list], rule map_cong) simp_all
  also have "\<dots> = (\<Sum>k\<leftarrow>ks. if f x = k then g x else 0)
      + (\<Sum>k\<leftarrow>ks. sum_list (map g (filter (\<lambda>y. f y = k) xs)))"
    by (simp add: sum_list_addf)
  also have "\<dots> = g x + sum_list (map g xs)"
    by (simp only: sum_list_single_key [OF assms(1) k] Cons.IH [OF sub])
  finally show ?case by simp
qed

lemma group_keys:
  "distinct (sort (remdups (map enriched.name_reg df)))"
  "set (sort (remdups (map enriched.name_reg df))) = enriched.name_reg ` set df"
  by simp_all

lemma compute_names:
  "map region_result.name_reg (compute_referendum_result_by_regions df)
     = sort (remdups (map enriched.name_reg df))"
  by (simp add: compute_referendum_result_by_regions_def comp_def)

lemma compute_Registered:
  "map region_result.Registered (compute_referendum_result_by_regions df)
     = map (\<lambda>k. group_sum ballot.Registered k df) (sort (remdups (map enriched.name_reg df)))"
  by (simp add: compute_referendum_result_by_regions_def comp_def)

lemma compute_ignores:
  "compute_referendum_result_by_regions (map (enriched.code_reg_update f) df)
     = compute_referendum_result_by_regions df"
  by (simp add: compute_referendum_result_by_regions_def group_sum_def comp_def filter_map)

text \<open>
  Claim C4. The \<^verbatim>\<open>Registered\<close> column of the frame of
  \<^const>\<open>compute_referendum_result_by_regions\<close> sums to the sum of the \<^verbatim>\<open>Registered\<close>
  column of its input (both sums in the 64-bit arithmetic of the columns), and the frame has
  one row per distinct \<^verbatim>\<open>name_reg\<close> of the input: its names are distinct and are the
  names of the input.
\<close>

theorem compute_referendum_result_by_regions_conserves:
  "sum_list (map region_result.Registered (compute_referendum_result_by_regions df))
     = sum_list (map ballot.Registered df) \<and>
   distinct (map region_result.name_reg (compute_referendum_result_by_regions df)) \<and>
   set (map region_result.name_reg (compute_referendum_result_by_regions df))
     = set (map enriched.name_reg df)"
proof (intro conjI)
  have "sum_list (map region_result.Registered (compute_referendum_result_by_regions df))
      = (\<Sum>k\<leftarrow>sort (remdups (map enriched.name_reg df)).
           sum_list (map ballot.Registered (filter (\<lambda>e. enriched.name_reg e = k) df)))"
    by (simp add: compute_Registered group_sum_def)
  also have "\<dots> = sum_list (map ballot.Registered df)"
    by (rule sum_list_groups) simp_all
  finally show "sum_list (map region_result.Registered (compute_referendum_result_by_regions df))
     = sum_list (map ballot.Registered df)" .
  show "distinct (map region_result.name_reg (compute_referendum_result_by_regions df))"
    by (simp add: compute_names)
  show "set (map region_result.name_reg (compute_referendum_result_by_regions df))
     = set (map enriched.name_reg df)"
    by (simp add: compute_names)
qed

theorem compute_referendum_result_by_regions_conserves_witness:
  "compute_referendum_result_by_regions
     [example_enriched ''84'' AuRA, example_enriched ''94'' ''Corse'', example_enriched ''84'' AuRA]
   = [\<lparr>region_result.name_reg = AuRA, Registered = 200, Abstentions = 40, Null = 10,
        Choice_A = 80, Choice_B = 70\<rparr>, example_result ''Corse''] \<and>
   sum_list (map ballot.Registered
     [example_enriched ''84'' AuRA, example_enriched ''94'' ''Corse'', example_enriched ''84'' AuRA])
   = 300"
  using compute_referendum_result_by_regions_conserves
    [of "[example_enriched ''84'' AuRA, example_enriched ''94'' ''Corse'', example_enriched ''84'' AuRA]"]
  by (simp add: example_enriched_def example_result_def AuRA_def
      compute_referendum_result_by_regions_def group_sum_def)

text \<open>
  Claim C6 fails on the code. The frame of \<^const>\<open>compute_referendum_result_by_regions\<close>
  has the six columns of \<^typ>\<open>region_result\<close> and the positions as index: the region code
  is in none of them, and two inputs that differ in \<^verbatim>\<open>code_reg\<close> alone give the same frame.
  The docstring of the function asks for a frame indexed by \<^verbatim>\<open>code_reg\<close>.
\<close>

theorem compute_referendum_result_by_regions_drops_code_reg:
  "compute_referendum_result_by_regions [example_enriched ''84'' AuRA] = [example_result AuRA] \<and>
   compute_referendum_result_by_regions [example_enriched ''11'' AuRA] = [example_result AuRA]"
  by (simp add: example_enriched_def example_result_def
      compute_referendum_result_by_regions_def group_sum_def)

section \<open>The map\<close>


lemma first_geometry_missing:
  "\<forall>g \<in> set region_map. nom g \<noteq> k \<Longrightarrow> first_geometry region_map k = Inl IndexError"
  by (simp add: first_geometry_def filter_False)

lemma first_geometry_error:
  "first_geometry region_map k = Inl e \<Longrightarrow> e = IndexError"
  by (auto simp: first_geometry_def split: list.splits)

lemma geometries_error:
  "geometries region_map rows = Inl e \<Longrightarrow> e = IndexError"
  by (induction rows) (auto split: sum.splits dest: first_geometry_error)

lemma geometries_missing:
  "row \<in> set rows \<Longrightarrow> \<forall>g \<in> set region_map. nom g \<noteq> region_result.name_reg row \<Longrightarrow>
     geometries region_map rows = Inl IndexError"
proof (induction rows)
  case Nil
  then show ?case by simp
next
  case (Cons r rows)
  show ?case
  proof (cases "first_geometry region_map (region_result.name_reg r)")
    case (Inl e)
    then show ?thesis by (simp add: first_geometry_error)
  next
    case (Inr g)
    with Cons.prems have "row \<noteq> r"
      by (auto simp: first_geometry_missing)
    with Cons have "geometries region_map rows = Inl IndexError" by simp
    with Inr show ?thesis by simp
  qed
qed

text \<open>When every result row has a geometry of its name, the function returns a frame.\<close>

lemma first_geometry_found:
  "g \<in> set region_map \<Longrightarrow> nom g = k \<Longrightarrow> \<exists>y. first_geometry region_map k = Inr y"
  by (cases "filter (\<lambda>g. nom g = k) region_map")
    (auto simp: first_geometry_def filter_empty_conv)

lemma geometries_found:
  "\<forall>row \<in> set rows. \<exists>g \<in> set region_map. nom g = region_result.name_reg row \<Longrightarrow>
     \<exists>gs. geometries region_map rows = Inr gs"
proof (induction rows)
  case Nil
  then show ?case by simp
next
  case (Cons r rows)
  then obtain g where "g \<in> set region_map" "nom g = region_result.name_reg r" by auto
  from first_geometry_found [OF this] obtain y
    where y: "first_geometry region_map (region_result.name_reg r) = Inr y" ..
  from Cons obtain gs where "geometries region_map rows = Inr gs" by auto
  with y show ?case by simp
qed

lemma plot_referendum_map_returns:
  "\<forall>row \<in> set rows. \<exists>g \<in> set region_map. nom g = region_result.name_reg row \<Longrightarrow>
     \<exists>out. plot_referendum_map region_map rows = Inr out"
  using geometries_found [of rows region_map] by (auto simp: plot_referendum_map_def)








text \<open>
  Claim C9, as the code has it. When the name of a result row is the \<^verbatim>\<open>nom\<close> of no row of
  the map, \<^const>\<open>plot_referendum_map\<close> returns no frame: the first-match access of line
  159 raises \<^verbatim>\<open>IndexError\<close>.
\<close>

theorem plot_referendum_map_index_error:
  "row \<in> set rows \<Longrightarrow> \<forall>g \<in> set region_map. nom g \<noteq> region_result.name_reg row \<Longrightarrow>
     plot_referendum_map region_map rows = Inl IndexError"
  by (simp add: plot_referendum_map_def geometries_missing)

theorem plot_referendum_map_index_error_witness:
  "example_result AuRA \<in> set [example_result ''Corse'', example_result AuRA] \<and>
   nom (hd example_map) \<noteq> region_result.name_reg (example_result AuRA) \<and>
   plot_referendum_map example_map [example_result ''Corse'', example_result AuRA]
     = Inl IndexError"
  using plot_referendum_map_index_error
    [of "example_result AuRA" "[example_result ''Corse'', example_result AuRA]" example_map]
  by (simp add: example_map_def example_result_def AuRA_def)

text \<open>
  The claim as the specification states it fails: for a map without the example region,
  the error is \<^verbatim>\<open>IndexError\<close>, not an \<^verbatim>\<open>UnresolvedReferenceError\<close> naming the region.
\<close>

theorem plot_referendum_map_no_unresolved_reference_error:
  "plot_referendum_map example_map [example_result AuRA] = Inl IndexError \<and>
   plot_referendum_map example_map [example_result AuRA] \<noteq> Inl (UnresolvedReferenceError AuRA)"
  by (simp add: plot_referendum_map_def first_geometry_def example_map_def
      example_result_def AuRA_def)

section \<open>The example of the specification\<close>

text \<open>
  Claim C1. For the region 84, the department \<^verbatim>\<open>01\<close> of region 84 and one referendum row
  of department \<^verbatim>\<open>1\<close> with the counts 100, 20, 5, 40 and 35, whatever its other columns,
  the three functions in sequence give exactly one result row, with the region's name and
  those counts: the key of department \<^verbatim>\<open>01\<close> is \<^verbatim>\<open>1\<close>. For a map with a geometry of that
  name, \<^const>\<open>plot_referendum_map\<close> gives the row the ratio 40/75.
\<close>

theorem pipeline_example:
  "dep_code_key ''01'' = ''1'' \<and>
   compute_referendum_result_by_regions
     (merge_referendum_and_areas
        [\<lparr>Department_code = ''1'', Department_name = dn, Town_code = tc, Town_name = tn,
          Registered = 100, Abstentions = 20, Null = 5, Choice_A = 40, Choice_B = 35\<rparr>]
        (merge_regions_and_departments
           [\<lparr>region.code = ''84'', name = AuRA\<rparr>]
           [\<lparr>region_code = ''84'', code = ''01'', name = ''Ain''\<rparr>]))
   = [\<lparr>region_result.name_reg = AuRA, Registered = 100, Abstentions = 20, Null = 5,
        Choice_A = 40, Choice_B = 35\<rparr>] \<and>
   plot_referendum_map [\<lparr>region_geometry.code = c, nom = AuRA, geometry = g\<rparr>]
     (compute_referendum_result_by_regions
        (merge_referendum_and_areas
           [\<lparr>Department_code = ''1'', Department_name = dn, Town_code = tc, Town_name = tn,
             Registered = 100, Abstentions = 20, Null = 5, Choice_A = 40, Choice_B = 35\<rparr>]
           (merge_regions_and_departments
              [\<lparr>region.code = ''84'', name = AuRA\<rparr>]
              [\<lparr>region_code = ''84'', code = ''01'', name = ''Ain''\<rparr>])))
   = Inr [\<lparr>rendered.geometry = g, name_reg = AuRA, Registered = 100, Abstentions = 20,
           Null = 5, Choice_A = 40, Choice_B = 35, ratio = Quot (40 / 75)\<rparr>]"
  by (simp add: merge_regions_and_departments_def set_name_reg_def new_area_def
      merge_referendum_and_areas_def np_unique_def attach_def new_enriched_def
      compute_referendum_result_by_regions_def group_sum_def
      isalpha_examples dep_code_key_01
      plot_referendum_map_def first_geometry_def render_def true_divide_def)

end
